theory Spec2Isabelle
  imports
    Complex_Main
    "HOL-Library.Sublist"
    "HOL-Library.Multiset"
    "HOL-Library.Option_ord"
    "HOL-Library.Char_ord"
    "HOL-Library.List_Lexorder"
begin

section \<open>Data model\<close>

text \<open>
  The script \<^verbatim>\<open>app.py\<close> works on two pandas data frames. A data frame is modelled as the
  list of its rows, in row order; a row is a record with one field per column, named as the
  column is named in the source. A float64 cell is a \<open>real option\<close>: \<open>None\<close> is the
  missing value (NaN), \<open>Some x\<close> a number. The numbers are exact reals: rounding of float64
  arithmetic is not modelled, so every concrete input below uses values on which float64
  arithmetic is exact.
\<close>

type_synonym cell = "real option"

record ec2 =
  ResourceId :: string
  InstanceType :: string
  Region :: string
  State :: string
  CPUUtilization :: cell
  MemoryUtilization :: cell
  CostUSD :: cell
  CreationDate :: string

record s3 =
  BucketName :: string
  Region :: string
  StorageClass :: string
  TotalSizeGB :: cell
  ObjectCount :: int
  CostUSD :: cell
  CreationDate :: string

section \<open>Cell arithmetic and comparison\<close>

text \<open>
  Arithmetic with a missing operand is missing; a comparison with a missing operand is
  false (IEEE NaN, as numpy and pandas have it).
\<close>

definition nan_bin :: "(real \<Rightarrow> real \<Rightarrow> real) \<Rightarrow> cell \<Rightarrow> cell \<Rightarrow> cell" where
  "nan_bin f a b = (case a of None \<Rightarrow> None | Some x \<Rightarrow> (case b of None \<Rightarrow> None | Some y \<Rightarrow> Some (f x y)))"

definition nan_cmp :: "(real \<Rightarrow> real \<Rightarrow> bool) \<Rightarrow> cell \<Rightarrow> cell \<Rightarrow> bool" where
  "nan_cmp p a b = (case a of None \<Rightarrow> False | Some x \<Rightarrow> (case b of None \<Rightarrow> False | Some y \<Rightarrow> p x y))"

section \<open>Series operations\<close>

text \<open>A series (one column) is the list of its cells. \<open>dropna\<close> keeps the numbers.\<close>

fun dropna :: "cell list \<Rightarrow> real list" where
  "dropna [] = []"
| "dropna (None # col) = dropna col"
| "dropna (Some v # col) = v # dropna col"

text \<open>
  \<^verbatim>\<open>Series.median()\<close> skips missing values; the median of no value at all is NaN.
\<close>

definition median :: "cell list \<Rightarrow> cell" where
  "median col =
     (let vs = sort (dropna col); n = length vs
      in if n = 0 then None
         else if odd n then Some (vs ! (n div 2))
         else Some ((vs ! (n div 2 - 1) + vs ! (n div 2)) / 2))"

text \<open>\<^verbatim>\<open>Series.fillna(v)\<close>: a missing cell becomes \<open>v\<close> (and stays missing when \<open>v\<close> is NaN).\<close>

definition fillna :: "cell list \<Rightarrow> cell \<Rightarrow> cell list" where
  "fillna col v = map (\<lambda>c. case c of None \<Rightarrow> v | Some x \<Rightarrow> Some x) col"

text \<open>
  \<^verbatim>\<open>Series.quantile(q)\<close>, linear interpolation: over the sorted non-missing values
  \<open>vs\<close>, at position \<open>(n - 1) * q\<close>; NaN when there is no value.
\<close>

definition quantile :: "cell list \<Rightarrow> real \<Rightarrow> cell" where
  "quantile col q =
     (let vs = sort (dropna col); n = length vs
      in if n = 0 then None
         else (let pos = real (n - 1) * q;
                   lo = nat \<lfloor>pos\<rfloor>;
                   hi = min (lo + 1) (n - 1);
                   frac = pos - real lo
               in Some (vs ! lo + frac * (vs ! hi - vs ! lo))))"

text \<open>\<^verbatim>\<open>Series.sum()\<close> skips missing values; the sum of no value is 0.\<close>

definition series_sum :: "cell list \<Rightarrow> real" where
  "series_sum col = sum_list (dropna col)"

text \<open>\<^verbatim>\<open>Series.mean()\<close> skips missing values; the mean of no value is NaN.\<close>

definition series_mean :: "cell list \<Rightarrow> cell" where
  "series_mean col =
     (let vs = dropna col
      in if vs = [] then None else Some (sum_list vs / real (length vs)))"

text \<open>\<^verbatim>\<open>Series.isin(values)\<close>: the boolean mask of membership.\<close>

definition isin :: "'a list \<Rightarrow> 'a list \<Rightarrow> bool list" where
  "isin col vals = map (\<lambda>v. v \<in> set vals) col"

text \<open>
  The right operand of \<^verbatim>\<open>&\<close> in the filters is either a mask or the Python scalar
  \<^verbatim>\<open>True\<close>, which pandas broadcasts over the rows.
\<close>

datatype operand = Mask "bool list" | Scalar bool

fun mask_and :: "bool list \<Rightarrow> operand \<Rightarrow> bool list" where
  "mask_and m (Mask m') = map (\<lambda>(a, b). a \<and> b) (zip m m')"
| "mask_and m (Scalar b) = map (\<lambda>a. a \<and> b) m"

text \<open>\<^verbatim>\<open>df[mask]\<close>: the rows whose mask entry is true, in row order.\<close>

definition getitem_mask :: "'a list \<Rightarrow> bool list \<Rightarrow> 'a list" where
  "getitem_mask df m = map fst (filter snd (zip df m))"

text \<open>\<^verbatim>\<open>Series.unique()\<close>: the distinct values in order of first appearance.\<close>

definition unique :: "'a list \<Rightarrow> 'a list" where
  "unique col = rev (remdups (rev col))"

section \<open>Data cleaning (lines 53 to 70)\<close>

text \<open>\<^verbatim>\<open>df[c] = series\<close>: the column is replaced cell by cell.\<close>

definition setitem :: "((cell \<Rightarrow> cell) \<Rightarrow> 'a \<Rightarrow> 'a) \<Rightarrow> 'a list \<Rightarrow> cell list \<Rightarrow> 'a list" where
  "setitem upd df col = map (\<lambda>(r, v). upd (\<lambda>_. v) r) (zip df col)"

definition clean_ec2 :: "ec2 list \<Rightarrow> ec2 list" where
  "clean_ec2 df =
     (let df1 = setitem CPUUtilization_update df
                  (fillna (map CPUUtilization df) (median (map CPUUtilization df)));
          df2 = setitem MemoryUtilization_update df1
                  (fillna (map MemoryUtilization df1) (median (map MemoryUtilization df1)));
          df3 = setitem ec2.CostUSD_update df2 (fillna (map ec2.CostUSD df2) (Some 0))
      in df3)"

definition clean_s3 :: "s3 list \<Rightarrow> s3 list" where
  "clean_s3 df =
     (let df1 = setitem s3.CostUSD_update df (fillna (map s3.CostUSD df) (Some 0));
          df2 = setitem TotalSizeGB_update df1 (fillna (map TotalSizeGB df1) (Some 0))
      in df2)"

text \<open>
  \<^verbatim>\<open>remove_outliers(df, col)\<close>. The column is given by its selector. The fences are
  cells: on a column without any value the quantiles are NaN, both comparisons are false
  everywhere, and no row is kept.
\<close>

definition remove_outliers :: "'a list \<Rightarrow> ('a \<Rightarrow> cell) \<Rightarrow> 'a list" where
  "remove_outliers df col =
     (let Q1 = quantile (map col df) 0.25;
          Q3 = quantile (map col df) 0.75;
          IQR = nan_bin (-) Q3 Q1;
          lower = nan_bin (-) Q1 (nan_bin (*) (Some 1.5) IQR);
          upper = nan_bin (+) Q3 (nan_bin (*) (Some 1.5) IQR)
      in getitem_mask df
           (mask_and (map (\<lambda>v. nan_cmp (\<ge>) v lower) (map col df))
                     (Mask (map (\<lambda>v. nan_cmp (\<le>) v upper) (map col df)))))"

section \<open>Filters (lines 77 to 94)\<close>

record selection =
  ec2_regions :: "string list"
  ec2_states :: "string list"
  ec2_types :: "string list"
  s3_regions :: "string list"
  s3_classes :: "string list"

text \<open>
  The selection the sidebar starts with: every observed region, the state
  \<^verbatim>\<open>running\<close>, and nothing selected for instance type and storage class.
\<close>

definition default_selection :: "ec2 list \<Rightarrow> s3 list \<Rightarrow> selection" where
  "default_selection df_ec2 df_s3 =
     \<lparr>ec2_regions = unique (map ec2.Region df_ec2),
      ec2_states = [''running''],
      ec2_types = [],
      s3_regions = unique (map s3.Region df_s3),
      s3_classes = []\<rparr>"

definition filtered_ec2 :: "ec2 list \<Rightarrow> string list \<Rightarrow> string list \<Rightarrow> string list \<Rightarrow> ec2 list" where
  "filtered_ec2 df_ec2 regions states types =
     getitem_mask df_ec2
       (mask_and
          (mask_and (isin (map ec2.Region df_ec2) regions)
                    (Mask (isin (map State df_ec2) states)))
          (if types \<noteq> [] then Mask (isin (map InstanceType df_ec2) types) else Scalar True))"

definition filtered_s3 :: "s3 list \<Rightarrow> string list \<Rightarrow> string list \<Rightarrow> s3 list" where
  "filtered_s3 df_s3 regions classes =
     getitem_mask df_s3
       (mask_and (isin (map s3.Region df_s3) regions)
          (if classes \<noteq> [] then Mask (isin (map StorageClass df_s3) classes) else Scalar True))"

section \<open>Rankings and group summaries (lines 99 to 103)\<close>

text \<open>
  \<^verbatim>\<open>sort_values(col, ascending=False)\<close> orders the rows by descending value, missing
  values last. pandas reverses the rows, sorts ascending and reverses the result; with the
  order of \<open>HOL-Library.Option_ord\<close>, in which \<open>None\<close> is below every number, this puts
  the missing values last. The sort taken here is the stable one, so rows of equal value
  keep their row order; pandas' default sort leaves that order open, and nothing below
  that is stated of \<open>sort_values\<close> depends on it.
\<close>

definition sort_values_desc :: "('a \<Rightarrow> cell) \<Rightarrow> 'a list \<Rightarrow> 'a list" where
  "sort_values_desc col df = rev (sort_key col (rev df))"

definition head :: "nat \<Rightarrow> 'a list \<Rightarrow> 'a list" where
  "head n df = take n df"

text \<open>
  \<^verbatim>\<open>DataFrame.nlargest(n, col)\<close> with the default \<^verbatim>\<open>keep='first'\<close>: the first
  \<open>n\<close> rows in descending order of the column, rows of equal value in row order.
\<close>

definition nlargest :: "nat \<Rightarrow> ('a \<Rightarrow> cell) \<Rightarrow> 'a list \<Rightarrow> 'a list" where
  "nlargest n col df = take n (rev (sort_key col (rev df)))"

definition top5_ec2 :: "ec2 list \<Rightarrow> (string \<times> string \<times> string \<times> cell) list" where
  "top5_ec2 fe =
     map (\<lambda>r. (ResourceId r, InstanceType r, ec2.Region r, ec2.CostUSD r))
         (nlargest 5 ec2.CostUSD fe)"

definition top5_s3 :: "s3 list \<Rightarrow> (string \<times> string \<times> cell \<times> cell) list" where
  "top5_s3 fs =
     map (\<lambda>r. (BucketName r, s3.Region r, TotalSizeGB r, s3.CostUSD r))
         (nlargest 5 TotalSizeGB fs)"

text \<open>
  \<^verbatim>\<open>df.groupby(g)[v].mean().reset_index()\<close>: one row per distinct group key, keys in
  ascending order (groupby sorts them), with the mean of the group's values.
\<close>

definition group_keys :: "('a \<Rightarrow> string) \<Rightarrow> 'a list \<Rightarrow> string list" where
  "group_keys g df = sort (remdups (map g df))"

definition group_mean :: "'a list \<Rightarrow> ('a \<Rightarrow> string) \<Rightarrow> ('a \<Rightarrow> cell) \<Rightarrow> (string \<times> cell) list" where
  "group_mean df g v =
     map (\<lambda>k. (k, series_mean (map v (filter (\<lambda>r. g r = k) df)))) (group_keys g df)"

definition group_sum :: "'a list \<Rightarrow> ('a \<Rightarrow> string) \<Rightarrow> ('a \<Rightarrow> cell) \<Rightarrow> (string \<times> real) list" where
  "group_sum df g v =
     map (\<lambda>k. (k, series_sum (map v (filter (\<lambda>r. g r = k) df)))) (group_keys g df)"

definition avg_cost_region :: "ec2 list \<Rightarrow> (string \<times> cell) list" where
  "avg_cost_region fe = group_mean fe ec2.Region ec2.CostUSD"

definition total_storage_region :: "s3 list \<Rightarrow> (string \<times> real) list" where
  "total_storage_region fs = group_sum fs s3.Region TotalSizeGB"

section \<open>Optimization insights (lines 109 to 122 and 216 to 235)\<close>

text \<open>
  Each heuristic has three steps: the selection by a mask, the new savings column, and
  the ranking cut to ten rows. A row with its savings cell is a pair.
\<close>

definition underutilized_selected :: "ec2 list \<Rightarrow> ec2 list" where
  "underutilized_selected fe =
     getitem_mask fe
       (mask_and (map (\<lambda>v. nan_cmp (<) v (Some 20)) (map CPUUtilization fe))
                 (Mask (map (\<lambda>s. s = ''running'') (map State fe))))"

definition with_savings_per_hour :: "ec2 list \<Rightarrow> (ec2 \<times> cell) list" where
  "with_savings_per_hour df = map (\<lambda>r. (r, nan_bin (*) (ec2.CostUSD r) (Some 0.5))) df"

definition underutilized_ec2 :: "ec2 list \<Rightarrow> (ec2 \<times> cell) list" where
  "underutilized_ec2 fe =
     head 10 (sort_values_desc snd (with_savings_per_hour (underutilized_selected fe)))"

definition expensive_selected :: "s3 list \<Rightarrow> s3 list" where
  "expensive_selected fs =
     getitem_mask fs
       (mask_and (map (\<lambda>c. c = ''STANDARD'') (map StorageClass fs))
                 (Mask (map (\<lambda>v. nan_cmp (>) v (Some 100)) (map TotalSizeGB fs))))"

definition with_monthly_savings :: "s3 list \<Rightarrow> (s3 \<times> cell) list" where
  "with_monthly_savings df = map (\<lambda>r. (r, nan_bin (*) (TotalSizeGB r) (Some 0.01))) df"

definition expensive_s3 :: "s3 list \<Rightarrow> (s3 \<times> cell) list" where
  "expensive_s3 fs =
     head 10 (sort_values_desc snd (with_monthly_savings (expensive_selected fs)))"

text \<open>
  The headline totals of the Optimization tab. They are computed from the variables
  \<^verbatim>\<open>underutilized_ec2\<close> and \<^verbatim>\<open>expensive_s3\<close> as they are at that point of the
  script, and only when the table has a row (\<open>None\<close>: no metric is shown).
\<close>

definition total_savings_hr :: "ec2 list \<Rightarrow> real" where
  "total_savings_hr fe = series_sum (map snd (underutilized_ec2 fe))"

definition total_savings_mo :: "s3 list \<Rightarrow> real" where
  "total_savings_mo fs = series_sum (map snd (expensive_s3 fs))"

definition headline_ec2 :: "ec2 list \<Rightarrow> real option" where
  "headline_ec2 fe = (if underutilized_ec2 fe \<noteq> [] then Some (total_savings_hr fe) else None)"

definition headline_s3 :: "s3 list \<Rightarrow> real option" where
  "headline_s3 fs = (if expensive_s3 fs \<noteq> [] then Some (total_savings_mo fs) else None)"

section \<open>The script as a whole\<close>

record outputs =
  out_filtered_ec2 :: "ec2 list"
  out_filtered_s3 :: "s3 list"
  out_top5_ec2 :: "(string \<times> string \<times> string \<times> cell) list"
  out_top5_s3 :: "(string \<times> string \<times> cell \<times> cell) list"
  out_avg_cost_region :: "(string \<times> cell) list"
  out_total_storage_region :: "(string \<times> real) list"
  out_underutilized_ec2 :: "(ec2 \<times> cell) list"
  out_expensive_s3 :: "(s3 \<times> cell) list"
  out_headline_ec2 :: "real option"
  out_headline_s3 :: "real option"

text \<open>
  The script from line 72 on, as a function of the four data frames that are in scope
  there (the imputed frames and the outlier-free frames) and of the sidebar selection.
\<close>

definition downstream :: "ec2 list \<Rightarrow> s3 list \<Rightarrow> ec2 list \<Rightarrow> s3 list \<Rightarrow> selection \<Rightarrow> outputs" where
  "downstream df_ec2 df_s3 df_ec2_clean df_s3_clean sel =
     (let fe = filtered_ec2 df_ec2 (ec2_regions sel) (ec2_states sel) (ec2_types sel);
          fs = filtered_s3 df_s3 (s3_regions sel) (s3_classes sel)
      in \<lparr>out_filtered_ec2 = fe,
          out_filtered_s3 = fs,
          out_top5_ec2 = top5_ec2 fe,
          out_top5_s3 = top5_s3 fs,
          out_avg_cost_region = avg_cost_region fe,
          out_total_storage_region = total_storage_region fs,
          out_underutilized_ec2 = underutilized_ec2 fe,
          out_expensive_s3 = expensive_s3 fs,
          out_headline_ec2 = headline_ec2 fe,
          out_headline_s3 = headline_s3 fs\<rparr>)"

definition app :: "ec2 list \<Rightarrow> s3 list \<Rightarrow> selection \<Rightarrow> outputs" where
  "app raw_ec2 raw_s3 sel =
     (let df_ec2 = clean_ec2 raw_ec2;
          df_s3 = clean_s3 raw_s3;
          df_ec2_clean = remove_outliers df_ec2 ec2.CostUSD;
          df_s3_clean = remove_outliers df_s3 TotalSizeGB
      in downstream df_ec2 df_s3 df_ec2_clean df_s3_clean sel)"

section \<open>Auxiliary notions for the statements\<close>

text \<open>
  The fences \<^verbatim>\<open>lower\<close> and \<^verbatim>\<open>upper\<close> that \<^verbatim>\<open>remove_outliers\<close> computes
  from a column, and the test it applies to a cell.
\<close>

definition fences :: "cell list \<Rightarrow> cell \<times> cell" where
  "fences c =
     (let Q1 = quantile c 0.25;
          Q3 = quantile c 0.75;
          IQR = nan_bin (-) Q3 Q1
      in (nan_bin (-) Q1 (nan_bin (*) (Some 1.5) IQR), nan_bin (+) Q3 (nan_bin (*) (Some 1.5) IQR)))"

definition inside :: "cell \<times> cell \<Rightarrow> cell \<Rightarrow> bool" where
  "inside f v = (nan_cmp (\<ge>) v (fst f) \<and> nan_cmp (\<le>) v (snd f))"

section \<open>Masks and selections\<close>

lemma getitem_mask_map: "getitem_mask df (map p df) = filter p df"
  unfolding getitem_mask_def by (induction df) auto

lemma mask_and_Mask_map: "mask_and (map p df) (Mask (map q df)) = map (\<lambda>r. p r \<and> q r) df"
  by (induction df) auto

lemma mask_and_Scalar_map: "mask_and (map p df) (Scalar b) = map (\<lambda>r. p r \<and> b) df"
  by simp

lemma isin_map: "isin (map f df) vals = map (\<lambda>r. f r \<in> set vals) df"
  by (simp add: isin_def)

lemma subseq_getitem_mask: "subseq (getitem_mask df m) df"
proof (induction df arbitrary: m)
  case Nil
  show ?case by (simp add: getitem_mask_def)
next
  case (Cons r df)
  show ?case
  proof (cases m)
    case Nil
    then show ?thesis by (simp add: getitem_mask_def)
  next
    case (Cons b m')
    with Cons.IH [of m'] show ?thesis
      by (cases b) (auto simp: getitem_mask_def)
  qed
qed

lemma filtered_ec2_filter:
  "filtered_ec2 df regions states types =
     filter (\<lambda>r. ec2.Region r \<in> set regions \<and> State r \<in> set states \<and>
                 (types = [] \<or> InstanceType r \<in> set types)) df"
  by (cases "types = []")
     (simp_all add: filtered_ec2_def isin_map mask_and_Mask_map mask_and_Scalar_map
        getitem_mask_map del: mask_and.simps)

lemma filtered_s3_filter:
  "filtered_s3 df regions classes =
     filter (\<lambda>r. s3.Region r \<in> set regions \<and> (classes = [] \<or> StorageClass r \<in> set classes)) df"
  by (cases "classes = []")
     (simp_all add: filtered_s3_def isin_map mask_and_Mask_map mask_and_Scalar_map
        getitem_mask_map del: mask_and.simps)

lemma underutilized_selected_filter:
  "underutilized_selected fe =
     filter (\<lambda>r. nan_cmp (<) (CPUUtilization r) (Some 20) \<and> State r = ''running'') fe"
  by (simp add: underutilized_selected_def mask_and_Mask_map getitem_mask_map o_def
        del: mask_and.simps)

lemma expensive_selected_filter:
  "expensive_selected fs =
     filter (\<lambda>r. StorageClass r = ''STANDARD'' \<and> nan_cmp (>) (TotalSizeGB r) (Some 100)) fs"
  by (simp add: expensive_selected_def mask_and_Mask_map getitem_mask_map o_def
        del: mask_and.simps)

lemma remove_outliers_filter:
  "remove_outliers df col = filter (\<lambda>r. inside (fences (map col df)) (col r)) df"
  by (simp add: remove_outliers_def fences_def inside_def Let_def mask_and_Mask_map
        getitem_mask_map o_def del: mask_and.simps)

section \<open>Row selections are subsequences\<close>

text \<open>
  Claim C10. Outlier removal, the two filters and the selection step of each advisor
  heuristic return a subsequence of their input: every row of the result is a row of the
  input, unchanged, and the rows that survive keep their relative order. (The savings
  column and the ranking come after the selection step and are not part of it.)
\<close>

theorem selection_steps_subseq:
  "subseq (remove_outliers df col) df \<and>
   subseq (filtered_ec2 dfe regions states types) dfe \<and>
   subseq (filtered_s3 dfs regions' classes) dfs \<and>
   subseq (underutilized_selected fe) fe \<and>
   subseq (expensive_selected fs) fs"
  by (simp add: remove_outliers_def filtered_ec2_def filtered_s3_def underutilized_selected_def
        expensive_selected_def Let_def subseq_getitem_mask del: mask_and.simps)

theorem selection_steps_subseq_witness:
  "remove_outliers [Some 0, Some 0, Some 0, Some 1, Some 10] (\<lambda>c. c) =
     [Some 0, Some 0, Some 0, Some 1] \<and>
   subseq [Some 0, Some 0, Some 0, Some 1] [Some 0, Some 0, Some 0, Some 1, Some (10::real)]"
proof -
  have e: "remove_outliers [Some 0, Some 0, Some 0, Some 1, Some 10] (\<lambda>c. c)
             = [Some 0, Some 0, Some 0, Some 1]"
    by (simp add: remove_outliers_def quantile_def nan_bin_def nan_cmp_def getitem_mask_def Let_def)
  from selection_steps_subseq [of "[Some 0, Some 0, Some 0, Some 1, Some 10]" "\<lambda>c. c"]
  have "subseq (remove_outliers [Some 0, Some 0, Some 0, Some 1, Some 10] (\<lambda>c. c))
          [Some 0, Some 0, Some 0, Some 1, Some (10::real)]"
    by (rule conjunct1)
  with e show ?thesis by simp
qed

section \<open>The filters\<close>

text \<open>
  Claim C3. An empty allow-set for the region, or for the state of a compute resource,
  leaves no row. An empty allow-set for the instance type or the storage class is no
  restriction: the rows that pass the other predicates are returned. In general a row is
  kept when, in every dimension, its value is a member of the allow-set (the empty
  instance-type and storage-class sets apart). With every observed region and state
  selected and no instance type or storage class selected, the frame comes back whole.
\<close>

theorem filter_engine_allow_sets:
  "filtered_ec2 dfe [] states types = [] \<and>
   filtered_ec2 dfe regions [] types = [] \<and>
   filtered_ec2 dfe regions states [] =
     filter (\<lambda>r. ec2.Region r \<in> set regions \<and> State r \<in> set states) dfe \<and>
   filtered_ec2 dfe regions states types =
     filter (\<lambda>r. ec2.Region r \<in> set regions \<and> State r \<in> set states \<and>
                 (types = [] \<or> InstanceType r \<in> set types)) dfe \<and>
   filtered_s3 dfs [] classes = [] \<and>
   filtered_s3 dfs regions' [] = filter (\<lambda>r. s3.Region r \<in> set regions') dfs \<and>
   filtered_s3 dfs regions' classes =
     filter (\<lambda>r. s3.Region r \<in> set regions' \<and>
                 (classes = [] \<or> StorageClass r \<in> set classes)) dfs \<and>
   filtered_ec2 dfe (unique (map ec2.Region dfe)) (unique (map State dfe)) [] = dfe \<and>
   filtered_s3 dfs (unique (map s3.Region dfs)) [] = dfs"
  by (simp add: filtered_ec2_filter filtered_s3_filter unique_def)

theorem filter_engine_allow_sets_witness:
  "filtered_ec2
     [\<lparr>ResourceId = ''A'', InstanceType = ''t3.micro'', Region = ''us-east'', State = ''running'',
       CPUUtilization = Some 10, MemoryUtilization = Some 30, CostUSD = Some 100,
       CreationDate = ''2025-01-01''\<rparr>,
      \<lparr>ResourceId = ''B'', InstanceType = ''m5.large'', Region = ''us-west'', State = ''stopped'',
       CPUUtilization = Some 50, MemoryUtilization = Some 40, CostUSD = Some 80,
       CreationDate = ''2025-01-02''\<rparr>]
     [] [''running''] [] = [] \<and>
   filtered_ec2
     [\<lparr>ResourceId = ''A'', InstanceType = ''t3.micro'', Region = ''us-east'', State = ''running'',
       CPUUtilization = Some 10, MemoryUtilization = Some 30, CostUSD = Some 100,
       CreationDate = ''2025-01-01''\<rparr>,
      \<lparr>ResourceId = ''B'', InstanceType = ''m5.large'', Region = ''us-west'', State = ''stopped'',
       CPUUtilization = Some 50, MemoryUtilization = Some 40, CostUSD = Some 80,
       CreationDate = ''2025-01-02''\<rparr>]
     [''us-east'', ''us-west''] [''running''] [] =
     [\<lparr>ResourceId = ''A'', InstanceType = ''t3.micro'', Region = ''us-east'', State = ''running'',
       CPUUtilization = Some 10, MemoryUtilization = Some 30, CostUSD = Some 100,
       CreationDate = ''2025-01-01''\<rparr>]"
  using filter_engine_allow_sets
    [where dfe = "[\<lparr>ResourceId = ''A'', InstanceType = ''t3.micro'', Region = ''us-east'', State = ''running'',
       CPUUtilization = Some 10, MemoryUtilization = Some 30, CostUSD = Some 100,
       CreationDate = ''2025-01-01''\<rparr>,
      \<lparr>ResourceId = ''B'', InstanceType = ''m5.large'', Region = ''us-west'', State = ''stopped'',
       CPUUtilization = Some 50, MemoryUtilization = Some 40, CostUSD = Some 80,
       CreationDate = ''2025-01-02''\<rparr>]"
     and states = "[''running'']" and types = "[]" and regions = "[''us-east'', ''us-west'']"]
  by simp

section \<open>Cleaning: imputation\<close>

lemma setitem_map_fillna:
  "setitem upd (map h df) (fillna (map f df) v) =
     map (\<lambda>r. upd (\<lambda>_. case f r of None \<Rightarrow> v | Some x \<Rightarrow> Some x) (h r)) df"
  by (induction df) (simp_all add: setitem_def fillna_def)

lemma clean_ec2_map:
  "clean_ec2 df =
     map (\<lambda>r. r\<lparr>CPUUtilization :=
                    (case CPUUtilization r of None \<Rightarrow> median (map CPUUtilization df) | Some x \<Rightarrow> Some x),
                 MemoryUtilization :=
                    (case MemoryUtilization r of None \<Rightarrow> median (map MemoryUtilization df) | Some x \<Rightarrow> Some x),
                 ec2.CostUSD := (case ec2.CostUSD r of None \<Rightarrow> Some 0 | Some x \<Rightarrow> Some x)\<rparr>) df"
proof -
  define h1 where "h1 = (\<lambda>r::ec2. r\<lparr>CPUUtilization :=
      (case CPUUtilization r of None \<Rightarrow> median (map CPUUtilization df) | Some x \<Rightarrow> Some x)\<rparr>)"
  define h2 where "h2 = (\<lambda>r::ec2. (h1 r)\<lparr>MemoryUtilization :=
      (case MemoryUtilization r of None \<Rightarrow> median (map MemoryUtilization df) | Some x \<Rightarrow> Some x)\<rparr>)"
  define df1 where "df1 = setitem CPUUtilization_update df
      (fillna (map CPUUtilization df) (median (map CPUUtilization df)))"
  define df2 where "df2 = setitem MemoryUtilization_update df1
      (fillna (map MemoryUtilization df1) (median (map MemoryUtilization df1)))"
  have d1: "df1 = map h1 df"
    using setitem_map_fillna [of CPUUtilization_update "\<lambda>r. r" df CPUUtilization]
    by (simp add: df1_def h1_def)
  have m: "map MemoryUtilization df1 = map MemoryUtilization df"
    by (simp add: d1 h1_def o_def)
  have d2: "df2 = map h2 df"
    unfolding df2_def m unfolding d1
    by (simp add: setitem_map_fillna h2_def)
  have c: "map ec2.CostUSD df2 = map ec2.CostUSD df"
    by (simp add: d2 h2_def h1_def o_def)
  have "clean_ec2 df = setitem ec2.CostUSD_update df2 (fillna (map ec2.CostUSD df2) (Some 0))"
    by (simp add: clean_ec2_def Let_def df2_def df1_def)
  also have "\<dots> = map (\<lambda>r. (h2 r)\<lparr>ec2.CostUSD :=
      (case ec2.CostUSD r of None \<Rightarrow> Some 0 | Some x \<Rightarrow> Some x)\<rparr>) df"
    unfolding c unfolding d2 by (simp add: setitem_map_fillna)
  finally show ?thesis
    by (simp add: h2_def h1_def)
qed

lemma clean_s3_map:
  "clean_s3 df =
     map (\<lambda>r. r\<lparr>s3.CostUSD := (case s3.CostUSD r of None \<Rightarrow> Some 0 | Some x \<Rightarrow> Some x),
                 TotalSizeGB := (case TotalSizeGB r of None \<Rightarrow> Some 0 | Some x \<Rightarrow> Some x)\<rparr>) df"
proof -
  define h1 where "h1 = (\<lambda>r::s3. r\<lparr>s3.CostUSD :=
      (case s3.CostUSD r of None \<Rightarrow> Some 0 | Some x \<Rightarrow> Some x)\<rparr>)"
  define df1 where "df1 = setitem s3.CostUSD_update df (fillna (map s3.CostUSD df) (Some 0))"
  have d1: "df1 = map h1 df"
    using setitem_map_fillna [of s3.CostUSD_update "\<lambda>r. r" df s3.CostUSD]
    by (simp add: df1_def h1_def)
  have m: "map TotalSizeGB df1 = map TotalSizeGB df"
    by (simp add: d1 h1_def o_def)
  have "clean_s3 df = setitem TotalSizeGB_update df1 (fillna (map TotalSizeGB df1) (Some 0))"
    by (simp add: clean_s3_def Let_def df1_def)
  also have "\<dots> = map (\<lambda>r. (h1 r)\<lparr>TotalSizeGB :=
      (case TotalSizeGB r of None \<Rightarrow> Some 0 | Some x \<Rightarrow> Some x)\<rparr>) df"
    unfolding m unfolding d1 by (simp add: setitem_map_fillna)
  finally show ?thesis
    by (simp add: h1_def)
qed

lemma dropna_Nil_iff: "dropna c = [] \<longleftrightarrow> (\<forall>v \<in> set c. v = None)"
  by (induction c rule: dropna.induct) auto

lemma sort_Nil_iff: "sort xs = [] \<longleftrightarrow> xs = []"
  by (metis length_sort length_0_conv)

lemma median_Some:
  "dropna c \<noteq> [] \<Longrightarrow>
   median c = Some (if odd (length (dropna c)) then sort (dropna c) ! (length (dropna c) div 2)
                    else (sort (dropna c) ! (length (dropna c) div 2 - 1) +
                          sort (dropna c) ! (length (dropna c) div 2)) / 2)"
  by (simp add: median_def Let_def sort_Nil_iff)

lemma median_None_iff: "median c = None \<longleftrightarrow> dropna c = []"
proof (cases "dropna c = []")
  case True
  then show ?thesis by (simp add: median_def)
next
  case False
  from median_Some [OF False] have "median c \<noteq> None"
    by (simp only: option.distinct not_False_eq_True)
  with False show ?thesis by blast
qed

lemma median_single: "dropna c = [v] \<Longrightarrow> median c = Some v"
  by (simp add: median_def Let_def)

lemma quantile_None_iff: "quantile c q = None \<longleftrightarrow> dropna c = []"
  by (simp add: quantile_def Let_def sort_Nil_iff)

lemma remove_outliers_all_missing:
  assumes "\<forall>r \<in> set df. col r = None"
  shows "remove_outliers df col = []"
proof -
  have "inside f (col r) = False" if "r \<in> set df" for r f
    using assms that by (simp add: inside_def nan_cmp_def)
  then show ?thesis
    by (simp add: remove_outliers_filter)
qed

section \<open>The advisor heuristics\<close>

text \<open>
  Claim C6. The underutilized-compute heuristic selects exactly the rows of the filtered
  view whose CPU utilization is a number below 20 and whose state is \<^verbatim>\<open>running\<close>, and
  gives each the savings \<open>CostUSD * 0.5\<close>; the oversized-storage heuristic selects exactly
  the rows whose storage class is \<^verbatim>\<open>STANDARD\<close> and whose size is a number above 100, and
  gives each the savings \<open>TotalSizeGB * 0.01\<close>. The tables are these rows ranked and cut
  to ten. In the first scenario of the specification only resource A is selected, with
  savings 50; in the second only bucket X, with savings 1.5 (the other fields of the
  rows are arbitrary).
\<close>


theorem advisor_heuristics:
  "underutilized_selected fe =
     filter (\<lambda>r. (case CPUUtilization r of None \<Rightarrow> False | Some c \<Rightarrow> c < 20) \<and>
                 State r = ''running'') fe \<and>
   with_savings_per_hour (underutilized_selected fe) =
     map (\<lambda>r. (r, map_option (\<lambda>c. c * 0.5) (ec2.CostUSD r))) (underutilized_selected fe) \<and>
   underutilized_ec2 fe =
     head 10 (sort_values_desc snd (with_savings_per_hour (underutilized_selected fe))) \<and>
   expensive_selected fs =
     filter (\<lambda>r. StorageClass r = ''STANDARD'' \<and>
                 (case TotalSizeGB r of None \<Rightarrow> False | Some g \<Rightarrow> g > 100)) fs \<and>
   with_monthly_savings (expensive_selected fs) =
     map (\<lambda>r. (r, map_option (\<lambda>g. g * 0.01) (TotalSizeGB r))) (expensive_selected fs) \<and>
   expensive_s3 fs =
     head 10 (sort_values_desc snd (with_monthly_savings (expensive_selected fs))) \<and>
   underutilized_ec2
     [a\<lparr>ResourceId := ''A'', CPUUtilization := Some 10, State := ''running'', ec2.CostUSD := Some 100\<rparr>,
      b\<lparr>ResourceId := ''B'', CPUUtilization := Some 50, State := ''running'', ec2.CostUSD := Some 80\<rparr>,
      c\<lparr>ResourceId := ''C'', CPUUtilization := Some 5, State := ''stopped'', ec2.CostUSD := Some 40\<rparr>]
     = [(a\<lparr>ResourceId := ''A'', CPUUtilization := Some 10, State := ''running'',
           ec2.CostUSD := Some 100\<rparr>, Some 50)] \<and>
   expensive_s3
     [x\<lparr>BucketName := ''X'', StorageClass := ''STANDARD'', TotalSizeGB := Some 150, s3.CostUSD := Some 10\<rparr>,
      y\<lparr>BucketName := ''Y'', StorageClass := ''STANDARD'', TotalSizeGB := Some 50, s3.CostUSD := Some 5\<rparr>,
      z\<lparr>BucketName := ''Z'', StorageClass := ''GLACIER'', TotalSizeGB := Some 500, s3.CostUSD := Some 20\<rparr>]
     = [(x\<lparr>BucketName := ''X'', StorageClass := ''STANDARD'', TotalSizeGB := Some 150,
           s3.CostUSD := Some 10\<rparr>, Some 1.5)]"
proof -
  have c: "nan_cmp (<) v (Some 20) = (case v of None \<Rightarrow> False | Some c \<Rightarrow> c < 20)" for v
    by (simp add: nan_cmp_def split: option.splits)
  have g: "nan_cmp (>) v (Some 100) = (case v of None \<Rightarrow> False | Some g \<Rightarrow> g > 100)" for v
    by (simp add: nan_cmp_def split: option.splits)
  have m: "nan_bin (*) v (Some k) = map_option (\<lambda>c. c * k) v" for v k
    by (simp add: nan_bin_def split: option.splits)
  have s1: "underutilized_ec2
     [a\<lparr>ResourceId := ''A'', CPUUtilization := Some 10, State := ''running'', ec2.CostUSD := Some 100\<rparr>,
      b\<lparr>ResourceId := ''B'', CPUUtilization := Some 50, State := ''running'', ec2.CostUSD := Some 80\<rparr>,
      c\<lparr>ResourceId := ''C'', CPUUtilization := Some 5, State := ''stopped'', ec2.CostUSD := Some 40\<rparr>]
     = [(a\<lparr>ResourceId := ''A'', CPUUtilization := Some 10, State := ''running'',
           ec2.CostUSD := Some 100\<rparr>, Some 50)]"
    by (simp add: underutilized_ec2_def underutilized_selected_filter with_savings_per_hour_def
          sort_values_desc_def head_def nan_cmp_def nan_bin_def)
  have s2: "expensive_s3
     [x\<lparr>BucketName := ''X'', StorageClass := ''STANDARD'', TotalSizeGB := Some 150, s3.CostUSD := Some 10\<rparr>,
      y\<lparr>BucketName := ''Y'', StorageClass := ''STANDARD'', TotalSizeGB := Some 50, s3.CostUSD := Some 5\<rparr>,
      z\<lparr>BucketName := ''Z'', StorageClass := ''GLACIER'', TotalSizeGB := Some 500, s3.CostUSD := Some 20\<rparr>]
     = [(x\<lparr>BucketName := ''X'', StorageClass := ''STANDARD'', TotalSizeGB := Some 150,
           s3.CostUSD := Some 10\<rparr>, Some 1.5)]"
    by (simp add: expensive_s3_def expensive_selected_filter with_monthly_savings_def
          sort_values_desc_def head_def nan_cmp_def nan_bin_def)
  have g1: "underutilized_selected fe =
     filter (\<lambda>r. (case CPUUtilization r of None \<Rightarrow> False | Some c \<Rightarrow> c < 20) \<and>
                 State r = ''running'') fe"
    by (simp add: underutilized_selected_filter c)
  have g2: "expensive_selected fs =
     filter (\<lambda>r. StorageClass r = ''STANDARD'' \<and>
                 (case TotalSizeGB r of None \<Rightarrow> False | Some g \<Rightarrow> g > 100)) fs"
    by (simp add: expensive_selected_filter g)
  have g3: "with_savings_per_hour df = map (\<lambda>r. (r, map_option (\<lambda>c. c * 0.5) (ec2.CostUSD r))) df" for df
    by (simp add: with_savings_per_hour_def m)
  have g4: "with_monthly_savings df = map (\<lambda>r. (r, map_option (\<lambda>g. g * 0.01) (TotalSizeGB r))) df" for df
    by (simp add: with_monthly_savings_def m)
  show ?thesis
    using g1 g2 g3 g4 s1 s2 underutilized_ec2_def expensive_s3_def by blast
qed

theorem advisor_heuristics_witness:
  "underutilized_selected
     [\<lparr>ResourceId = ''A'', InstanceType = ''t3.micro'', Region = ''us-east'', State = ''running'',
       CPUUtilization = Some 10, MemoryUtilization = Some 30, CostUSD = Some 100,
       CreationDate = ''2025-01-01''\<rparr>,
      \<lparr>ResourceId = ''B'', InstanceType = ''m5.large'', Region = ''us-west'', State = ''running'',
       CPUUtilization = Some 50, MemoryUtilization = Some 40, CostUSD = Some 80,
       CreationDate = ''2025-01-02''\<rparr>] =
     [\<lparr>ResourceId = ''A'', InstanceType = ''t3.micro'', Region = ''us-east'', State = ''running'',
       CPUUtilization = Some 10, MemoryUtilization = Some 30, CostUSD = Some 100,
       CreationDate = ''2025-01-01''\<rparr>]"
  using advisor_heuristics
    [of "[\<lparr>ResourceId = ''A'', InstanceType = ''t3.micro'', Region = ''us-east'', State = ''running'',
       CPUUtilization = Some 10, MemoryUtilization = Some 30, CostUSD = Some 100,
       CreationDate = ''2025-01-01''\<rparr>,
      \<lparr>ResourceId = ''B'', InstanceType = ''m5.large'', Region = ''us-west'', State = ''running'',
       CPUUtilization = Some 50, MemoryUtilization = Some 40, CostUSD = Some 80,
       CreationDate = ''2025-01-02''\<rparr>]"]
  by simp

section \<open>Outlier removal applied twice\<close>

text \<open>
  Claim C4, as amended. Outlier removal is not idempotent: a second application computes
  new quartiles and fences from the rows that survived the first, and keeps the survivors
  that lie inside the new fences. Its result is a subsequence of the first result, and it
  equals the first result exactly when every surviving row lies inside the fences
  recomputed from the survivors; in particular when the first application removed no row.
\<close>


theorem remove_outliers_twice:
  "subseq (remove_outliers (remove_outliers df col) col) (remove_outliers df col) \<and>
   (remove_outliers (remove_outliers df col) col = remove_outliers df col) =
     (\<forall>r \<in> set (remove_outliers df col).
        inside (fences (map col (remove_outliers df col))) (col r)) \<and>
   (remove_outliers df col = df \<longrightarrow>
      remove_outliers (remove_outliers df col) col = remove_outliers df col)"
proof -
  have "subseq (remove_outliers (remove_outliers df col) col) (remove_outliers df col)"
    by (simp add: remove_outliers_def Let_def subseq_getitem_mask del: mask_and.simps)
  moreover have "(remove_outliers (remove_outliers df col) col = remove_outliers df col) =
     (\<forall>r \<in> set (remove_outliers df col).
        inside (fences (map col (remove_outliers df col))) (col r))"
    by (subst remove_outliers_filter [of "remove_outliers df col"]) (simp add: filter_id_conv)
  moreover have "remove_outliers df col = df \<longrightarrow>
      remove_outliers (remove_outliers df col) col = remove_outliers df col"
    by simp
  ultimately show ?thesis by blast
qed

theorem remove_outliers_idempotent_counterexample:
  "remove_outliers (remove_outliers [Some 0, Some 0, Some 0, Some 1, Some 10] (\<lambda>c. c)) (\<lambda>c. c)
     = [Some 0, Some 0, Some 0] \<and>
   remove_outliers [Some 0, Some 0, Some 0, Some 1, Some 10] (\<lambda>c. c)
     = [Some 0, Some 0, Some 0, Some 1] \<and>
   remove_outliers (remove_outliers [Some 0, Some 0, Some 0, Some 1, Some 10] (\<lambda>c. c)) (\<lambda>c. c)
     \<noteq> remove_outliers [Some 0, Some 0, Some 0, Some 1, Some 10] (\<lambda>c. c)"
  by (simp add: remove_outliers_def quantile_def nan_bin_def nan_cmp_def getitem_mask_def Let_def)

theorem remove_outliers_twice_witness:
  "remove_outliers [Some 1, Some 2, Some 3] (\<lambda>c. c) = [Some 1, Some 2, Some 3] \<and>
   remove_outliers (remove_outliers [Some 1, Some 2, Some 3] (\<lambda>c. c)) (\<lambda>c. c) =
     [Some 1, Some 2, Some (3::real)]"
proof -
  have e: "remove_outliers [Some 1, Some 2, Some 3] (\<lambda>c. c) = [Some 1, Some 2, Some (3::real)]"
    by (simp add: remove_outliers_def quantile_def nan_bin_def nan_cmp_def getitem_mask_def Let_def)
  from remove_outliers_twice [of "[Some 1, Some 2, Some 3]" "\<lambda>c. c"] e
  show ?thesis by simp
qed

section \<open>No missing values after cleaning\<close>

text \<open>
  Claim C5, as amended. After cleaning, a missing CPU or memory utilization is replaced
  by the median of the non-missing values of that column over all rows of the raw frame
  (outlier removal comes later and does not feed back), and a present one is kept; a
  missing cost or storage size is replaced by 0. So cost and storage size never have a
  missing value after cleaning, and a utilization column has none provided it had at least
  one value before; a utilization column with exactly one value has that value as its
  median, so every imputed entry equals it. (A utilization column with no value at all
  stays entirely missing.)
\<close>


theorem cleaning_imputes:
  "map CPUUtilization (clean_ec2 df) =
     map (\<lambda>r. case CPUUtilization r of None \<Rightarrow> median (map CPUUtilization df) | Some x \<Rightarrow> Some x) df \<and>
   map MemoryUtilization (clean_ec2 df) =
     map (\<lambda>r. case MemoryUtilization r of None \<Rightarrow> median (map MemoryUtilization df) | Some x \<Rightarrow> Some x) df \<and>
   map ec2.CostUSD (clean_ec2 df) =
     map (\<lambda>r. case ec2.CostUSD r of None \<Rightarrow> Some 0 | Some x \<Rightarrow> Some x) df \<and>
   map s3.CostUSD (clean_s3 ds) =
     map (\<lambda>r. case s3.CostUSD r of None \<Rightarrow> Some 0 | Some x \<Rightarrow> Some x) ds \<and>
   map TotalSizeGB (clean_s3 ds) =
     map (\<lambda>r. case TotalSizeGB r of None \<Rightarrow> Some 0 | Some x \<Rightarrow> Some x) ds \<and>
   (\<forall>r \<in> set (clean_ec2 df). ec2.CostUSD r \<noteq> None) \<and>
   (\<forall>r \<in> set (clean_s3 ds). s3.CostUSD r \<noteq> None \<and> TotalSizeGB r \<noteq> None) \<and>
   ((\<exists>r \<in> set df. CPUUtilization r \<noteq> None) \<longrightarrow>
      (\<forall>r \<in> set (clean_ec2 df). CPUUtilization r \<noteq> None)) \<and>
   ((\<exists>r \<in> set df. MemoryUtilization r \<noteq> None) \<longrightarrow>
      (\<forall>r \<in> set (clean_ec2 df). MemoryUtilization r \<noteq> None)) \<and>
   (dropna (map CPUUtilization df) = [v] \<longrightarrow> median (map CPUUtilization df) = Some v) \<and>
   (dropna (map MemoryUtilization df) = [w] \<longrightarrow> median (map MemoryUtilization df) = Some w)"
proof -
  have cpu: "map CPUUtilization (clean_ec2 df) =
     map (\<lambda>r. case CPUUtilization r of None \<Rightarrow> median (map CPUUtilization df) | Some x \<Rightarrow> Some x) df"
    by (simp add: clean_ec2_map o_def)
  have mem: "map MemoryUtilization (clean_ec2 df) =
     map (\<lambda>r. case MemoryUtilization r of None \<Rightarrow> median (map MemoryUtilization df) | Some x \<Rightarrow> Some x) df"
    by (simp add: clean_ec2_map o_def)
  have cost: "map ec2.CostUSD (clean_ec2 df) =
     map (\<lambda>r. case ec2.CostUSD r of None \<Rightarrow> Some 0 | Some x \<Rightarrow> Some x) df"
    by (simp add: clean_ec2_map o_def)
  have scost: "map s3.CostUSD (clean_s3 ds) =
     map (\<lambda>r. case s3.CostUSD r of None \<Rightarrow> Some 0 | Some x \<Rightarrow> Some x) ds"
    by (simp add: clean_s3_map o_def)
  have size: "map TotalSizeGB (clean_s3 ds) =
     map (\<lambda>r. case TotalSizeGB r of None \<Rightarrow> Some 0 | Some x \<Rightarrow> Some x) ds"
    by (simp add: clean_s3_map o_def)
  have a: "\<forall>r \<in> set (clean_ec2 df). ec2.CostUSD r \<noteq> None"
    by (auto simp: clean_ec2_map split: option.splits)
  have b: "\<forall>r \<in> set (clean_s3 ds). s3.CostUSD r \<noteq> None \<and> TotalSizeGB r \<noteq> None"
    by (auto simp: clean_s3_map split: option.splits)
  have c: "(\<exists>r \<in> set df. CPUUtilization r \<noteq> None) \<longrightarrow>
      (\<forall>r \<in> set (clean_ec2 df). CPUUtilization r \<noteq> None)"
  proof
    assume "\<exists>r \<in> set df. CPUUtilization r \<noteq> None"
    then have "median (map CPUUtilization df) \<noteq> None"
      by (auto simp: median_None_iff dropna_Nil_iff)
    then show "\<forall>r \<in> set (clean_ec2 df). CPUUtilization r \<noteq> None"
      by (auto simp: clean_ec2_map split: option.splits)
  qed
  have d: "(\<exists>r \<in> set df. MemoryUtilization r \<noteq> None) \<longrightarrow>
      (\<forall>r \<in> set (clean_ec2 df). MemoryUtilization r \<noteq> None)"
  proof
    assume "\<exists>r \<in> set df. MemoryUtilization r \<noteq> None"
    then have "median (map MemoryUtilization df) \<noteq> None"
      by (auto simp: median_None_iff dropna_Nil_iff)
    then show "\<forall>r \<in> set (clean_ec2 df). MemoryUtilization r \<noteq> None"
      by (auto simp: clean_ec2_map split: option.splits)
  qed
  from cpu mem cost scost size a b c d show ?thesis
    by (simp add: median_single)
qed

theorem cleaning_imputes_counterexample:
  "map CPUUtilization
     (clean_ec2
        [\<lparr>ResourceId = ''A'', InstanceType = ''t3.micro'', Region = ''us-east'', State = ''running'',
          CPUUtilization = None, MemoryUtilization = Some 30, CostUSD = Some 100,
          CreationDate = ''2025-01-01''\<rparr>,
         \<lparr>ResourceId = ''B'', InstanceType = ''m5.large'', Region = ''us-west'', State = ''stopped'',
          CPUUtilization = None, MemoryUtilization = Some 40, CostUSD = None,
          CreationDate = ''2025-01-02''\<rparr>]) = [None, None]"
  by (simp add: clean_ec2_def setitem_def fillna_def median_def Let_def)

theorem cleaning_imputes_witness:
  "map CPUUtilization
     (clean_ec2
        [\<lparr>ResourceId = ''A'', InstanceType = ''t3.micro'', Region = ''us-east'', State = ''running'',
          CPUUtilization = None, MemoryUtilization = Some 30, CostUSD = Some 100,
          CreationDate = ''2025-01-01''\<rparr>,
         \<lparr>ResourceId = ''B'', InstanceType = ''m5.large'', Region = ''us-west'', State = ''stopped'',
          CPUUtilization = Some 10, MemoryUtilization = Some 40, CostUSD = None,
          CreationDate = ''2025-01-02''\<rparr>]) = [Some 10, Some 10] \<and>
   map ec2.CostUSD
     (clean_ec2
        [\<lparr>ResourceId = ''A'', InstanceType = ''t3.micro'', Region = ''us-east'', State = ''running'',
          CPUUtilization = None, MemoryUtilization = Some 30, CostUSD = Some 100,
          CreationDate = ''2025-01-01''\<rparr>,
         \<lparr>ResourceId = ''B'', InstanceType = ''m5.large'', Region = ''us-west'', State = ''stopped'',
          CPUUtilization = Some 10, MemoryUtilization = Some 40, CostUSD = None,
          CreationDate = ''2025-01-02''\<rparr>]) = [Some 100, Some 0]"
  using cleaning_imputes
    [of "[\<lparr>ResourceId = ''A'', InstanceType = ''t3.micro'', Region = ''us-east'', State = ''running'',
          CPUUtilization = None, MemoryUtilization = Some 30, CostUSD = Some 100,
          CreationDate = ''2025-01-01''\<rparr>,
         \<lparr>ResourceId = ''B'', InstanceType = ''m5.large'', Region = ''us-west'', State = ''stopped'',
          CPUUtilization = Some 10, MemoryUtilization = Some 40, CostUSD = None,
          CreationDate = ''2025-01-02''\<rparr>]" "[]" 10 30]
  by (simp add: median_def)

section \<open>Entirely missing columns\<close>

text \<open>
  Claim C2, as amended. No error is signalled for an entirely missing column; the cleaner
  returns a record set of the same length. When the cost or the storage size is entirely
  missing, every such value becomes 0. When a utilization column is entirely missing, its
  median is missing too and the column comes back entirely missing. Outlier removal on a
  column without any value, or on an empty frame, returns the empty frame.
\<close>


theorem cleaning_entirely_missing:
  "((\<forall>r \<in> set df. CPUUtilization r = None) \<longrightarrow>
      map CPUUtilization (clean_ec2 df) = map CPUUtilization df) \<and>
   ((\<forall>r \<in> set df. MemoryUtilization r = None) \<longrightarrow>
      map MemoryUtilization (clean_ec2 df) = map MemoryUtilization df) \<and>
   ((\<forall>r \<in> set df. ec2.CostUSD r = None) \<longrightarrow>
      map ec2.CostUSD (clean_ec2 df) = map (\<lambda>r. Some 0) df) \<and>
   ((\<forall>r \<in> set ds. s3.CostUSD r = None) \<longrightarrow>
      map s3.CostUSD (clean_s3 ds) = map (\<lambda>r. Some 0) ds) \<and>
   ((\<forall>r \<in> set ds. TotalSizeGB r = None) \<longrightarrow>
      map TotalSizeGB (clean_s3 ds) = map (\<lambda>r. Some 0) ds) \<and>
   length (clean_ec2 df) = length df \<and>
   length (clean_s3 ds) = length ds \<and>
   ((\<forall>r \<in> set rows. col r = None) \<longrightarrow> remove_outliers rows col = []) \<and>
   remove_outliers [] col = []"
proof -
  have m: "(\<forall>r \<in> set xs. f r = None) \<Longrightarrow> median (map f xs) = None" for f :: "'b \<Rightarrow> cell" and xs
    by (simp add: median_None_iff dropna_Nil_iff)
  have cpu: "(\<forall>r \<in> set df. CPUUtilization r = None) \<longrightarrow>
      map CPUUtilization (clean_ec2 df) = map CPUUtilization df"
    by (auto simp: clean_ec2_map m)
  have mem: "(\<forall>r \<in> set df. MemoryUtilization r = None) \<longrightarrow>
      map MemoryUtilization (clean_ec2 df) = map MemoryUtilization df"
    by (auto simp: clean_ec2_map m)
  have cost: "(\<forall>r \<in> set df. ec2.CostUSD r = None) \<longrightarrow>
      map ec2.CostUSD (clean_ec2 df) = map (\<lambda>r. Some 0) df"
    by (auto simp: clean_ec2_map)
  have scost: "(\<forall>r \<in> set ds. s3.CostUSD r = None) \<longrightarrow>
      map s3.CostUSD (clean_s3 ds) = map (\<lambda>r. Some 0) ds"
    by (auto simp: clean_s3_map)
  have size: "(\<forall>r \<in> set ds. TotalSizeGB r = None) \<longrightarrow>
      map TotalSizeGB (clean_s3 ds) = map (\<lambda>r. Some 0) ds"
    by (auto simp: clean_s3_map)
  have l: "length (clean_ec2 df) = length df" "length (clean_s3 ds) = length ds"
    by (simp_all add: clean_ec2_map clean_s3_map)
  have r: "(\<forall>r \<in> set rows. col r = None) \<longrightarrow> remove_outliers rows col = []"
    using remove_outliers_all_missing by blast
  have e: "remove_outliers [] col = []"
    by (simp add: remove_outliers_filter)
  from cpu mem cost scost size l r e show ?thesis by blast
qed

theorem cleaning_entirely_missing_witness:
  "map CPUUtilization
     (clean_ec2
        [\<lparr>ResourceId = ''A'', InstanceType = ''t3.micro'', Region = ''us-east'', State = ''running'',
          CPUUtilization = None, MemoryUtilization = Some 30, CostUSD = None,
          CreationDate = ''2025-01-01''\<rparr>]) = [None] \<and>
   map ec2.CostUSD
     (clean_ec2
        [\<lparr>ResourceId = ''A'', InstanceType = ''t3.micro'', Region = ''us-east'', State = ''running'',
          CPUUtilization = None, MemoryUtilization = Some 30, CostUSD = None,
          CreationDate = ''2025-01-01''\<rparr>]) = [Some 0]"
  using cleaning_entirely_missing
    [of "[\<lparr>ResourceId = ''A'', InstanceType = ''t3.micro'', Region = ''us-east'', State = ''running'',
          CPUUtilization = None, MemoryUtilization = Some 30, CostUSD = None,
          CreationDate = ''2025-01-01''\<rparr>]" "[]" "[]" "\<lambda>r. r"]
  by simp

theorem cleaning_entirely_missing_counterexample:
  "clean_ec2
     [\<lparr>ResourceId = ''i-1'', InstanceType = ''t3.micro'', Region = ''us-east'', State = ''running'',
       CPUUtilization = None, MemoryUtilization = None, CostUSD = None,
       CreationDate = ''2025-01-01''\<rparr>] =
     [\<lparr>ResourceId = ''i-1'', InstanceType = ''t3.micro'', Region = ''us-east'', State = ''running'',
       CPUUtilization = None, MemoryUtilization = None, CostUSD = Some 0,
       CreationDate = ''2025-01-01''\<rparr>] \<and>
   clean_s3
     [\<lparr>BucketName = ''b-1'', Region = ''us-east'', StorageClass = ''STANDARD'',
       TotalSizeGB = None, ObjectCount = 7, CostUSD = None, CreationDate = ''2025-01-01''\<rparr>] =
     [\<lparr>BucketName = ''b-1'', Region = ''us-east'', StorageClass = ''STANDARD'',
       TotalSizeGB = Some 0, ObjectCount = 7, CostUSD = Some 0, CreationDate = ''2025-01-01''\<rparr>]"
  by (simp add: clean_ec2_def clean_s3_def setitem_def fillna_def median_def Let_def)

section \<open>Descending stable order\<close>

lemma mset_desc: "mset (rev (sort_key col (rev df))) = mset df"
  by simp

lemma sorted_desc: "sorted_wrt (\<lambda>a b. col b \<le> col a) (rev (sort_key col (rev df)))"
proof -
  have "sorted (map col (sort_key col (rev df)))"
    by (rule sorted_sort_key)
  then have "sorted_wrt (\<lambda>a b. col a \<le> col b) (sort_key col (rev df))"
    by (simp add: sorted_map)
  then show ?thesis
    by (simp add: sorted_wrt_rev)
qed

lemma filter_desc:
  "filter (\<lambda>r. col r = k) (rev (sort_key col (rev df))) = filter (\<lambda>r. col r = k) df"
proof -
  have "filter (\<lambda>r. col r = k) (rev (sort_key col (rev df)))
          = rev (filter (\<lambda>r. col r = k) (sort_key col (rev df)))"
    by (simp add: rev_filter)
  also have "\<dots> = rev (filter (\<lambda>r. col r = k) (rev df))"
    by (simp only: sort_key_stable)
  also have "\<dots> = filter (\<lambda>r. col r = k) df"
    by (simp add: rev_filter)
  finally show ?thesis .
qed

lemma mset_take_drop: "mset xs = mset (take n xs) + mset (drop n xs)"
  by (metis append_take_drop_id mset_append)

section \<open>Group summaries\<close>









section \<open>Headline totals\<close>





section \<open>Top rows by a column\<close>

text \<open>
  Claim C8. \<open>nlargest n col df\<close> returns \<open>min n (length df)\<close> rows, so at most \<open>n\<close>;
  the returned rows are rows of the input (as a multiset, so no row is returned more often
  than it occurs); the value of every returned row is at least the value of every row left
  out; the result is in descending order of the column, and among the rows of any one
  value the returned ones are the first of the input, in input order (a stable descending
  sort). The order on cells is that of \<open>HOL-Library.Option_ord\<close>: a missing value ranks
  below every number. The tables \<open>top5_ec2\<close> and \<open>top5_s3\<close> are the column projections
  of \<open>nlargest 5\<close>.
\<close>

theorem top_n_by_properties:
  "length (nlargest n col df) = min n (length df) \<and>
   mset (nlargest n col df) \<subseteq># mset df \<and>
   (\<forall>r \<in> set (nlargest n col df). \<forall>e \<in># mset df - mset (nlargest n col df). col e \<le> col r) \<and>
   sorted_wrt (\<lambda>a b. col b \<le> col a) (nlargest n col df) \<and>
   (\<forall>k. prefix (filter (\<lambda>r. col r = k) (nlargest n col df)) (filter (\<lambda>r. col r = k) df)) \<and>
   top5_ec2 fe =
     map (\<lambda>r. (ResourceId r, InstanceType r, ec2.Region r, ec2.CostUSD r)) (nlargest 5 ec2.CostUSD fe) \<and>
   top5_s3 fs =
     map (\<lambda>r. (BucketName r, s3.Region r, TotalSizeGB r, s3.CostUSD r)) (nlargest 5 TotalSizeGB fs)"
proof -
  define S where "S = rev (sort_key col (rev df))"
  have n: "nlargest n col df = take n S"
    by (simp add: nlargest_def S_def)
  have mS: "mset S = mset df"
    by (simp add: S_def)
  have split: "mset df = mset (take n S) + mset (drop n S)"
    using mset_take_drop [of S n] mS by simp
  have len: "length (nlargest n col df) = min n (length df)"
    by (simp add: n S_def min.commute)
  have sub: "mset (nlargest n col df) \<subseteq># mset df"
    unfolding n split by simp
  have sorted_S: "sorted_wrt (\<lambda>a b. col b \<le> col a) S"
    unfolding S_def by (rule sorted_desc)
  then have "sorted_wrt (\<lambda>a b. col b \<le> col a) (take n S @ drop n S)"
    by simp
  then have cross: "\<forall>r \<in> set (take n S). \<forall>e \<in> set (drop n S). col e \<le> col r"
    and st: "sorted_wrt (\<lambda>a b. col b \<le> col a) (take n S)"
    unfolding sorted_wrt_append by blast+
  have excl: "mset df - mset (nlargest n col df) = mset (drop n S)"
    unfolding n split by simp
  have ge: "\<forall>r \<in> set (nlargest n col df). \<forall>e \<in># mset df - mset (nlargest n col df). col e \<le> col r"
    unfolding excl using cross by (simp add: n)
  have ties: "\<forall>k. prefix (filter (\<lambda>r. col r = k) (nlargest n col df)) (filter (\<lambda>r. col r = k) df)"
  proof
    fix k
    have "prefix (filter (\<lambda>r. col r = k) (take n S)) (filter (\<lambda>r. col r = k) S)"
      by (rule filter_mono_prefix) (rule take_is_prefix)
    then show "prefix (filter (\<lambda>r. col r = k) (nlargest n col df)) (filter (\<lambda>r. col r = k) df)"
      by (simp add: n S_def filter_desc)
  qed
  from len sub ge st ties show ?thesis
    by (simp add: n top5_ec2_def top5_s3_def)
qed


theorem top_n_by_properties_witness:
  "nlargest 2 (\<lambda>p. snd p) [(''a'', Some 3), (''b'', Some 7), (''c'', None), (''d'', Some 7), (''e'', Some (1::real))]
     = [(''b'', Some 7), (''d'', Some 7)] \<and>
   length [(''b'', Some 7), (''d'', Some (7::real))] = min 2 (5::nat)"
proof -
  have e: "nlargest 2 (\<lambda>p. snd p) [(''a'', Some 3), (''b'', Some 7), (''c'', None), (''d'', Some 7), (''e'', Some (1::real))]
     = [(''b'', Some 7), (''d'', Some 7)]"
    by (simp add: nlargest_def)
  from top_n_by_properties [of 2 "\<lambda>p. snd p"
      "[(''a'', Some 3), (''b'', Some 7), (''c'', None), (''d'', Some 7), (''e'', Some (1::real))]"]
  have "length (nlargest 2 (\<lambda>p. snd p)
      [(''a'', Some 3), (''b'', Some 7), (''c'', None), (''d'', Some 7), (''e'', Some (1::real))])
      = min 2 (length [(''a'', Some 3), (''b'', Some 7), (''c'', None), (''d'', Some 7), (''e'', Some (1::real))])"
    by (rule conjunct1)
  with e show ?thesis by simp
qed

section \<open>Group summaries are per group and independent of row order\<close>



section \<open>Headline totals of the advisor\<close>




section \<open>The outlier-free frames are not used\<close>

text \<open>
  Claim C9. The part of the script after the cleaning does not depend on the
  outlier-free frames: replacing them by any other frames leaves every output unchanged.
  Every output of the whole script is the corresponding stage applied to the imputed
  frames: the filters to the cleaned frames, and rankings, group summaries, advisor
  tables and headlines to the filtered views.
\<close>

theorem clean_views_unused:
  "downstream de ds ce cs sel = downstream de ds ce' cs' sel \<and>
   app raw_e raw_s sel = downstream (clean_ec2 raw_e) (clean_s3 raw_s) ce cs sel \<and>
   out_filtered_ec2 (app raw_e raw_s sel) =
     filtered_ec2 (clean_ec2 raw_e) (ec2_regions sel) (ec2_states sel) (ec2_types sel) \<and>
   out_filtered_s3 (app raw_e raw_s sel) =
     filtered_s3 (clean_s3 raw_s) (s3_regions sel) (s3_classes sel) \<and>
   out_top5_ec2 (app raw_e raw_s sel) = top5_ec2 (out_filtered_ec2 (app raw_e raw_s sel)) \<and>
   out_top5_s3 (app raw_e raw_s sel) = top5_s3 (out_filtered_s3 (app raw_e raw_s sel)) \<and>
   out_avg_cost_region (app raw_e raw_s sel) =
     avg_cost_region (out_filtered_ec2 (app raw_e raw_s sel)) \<and>
   out_total_storage_region (app raw_e raw_s sel) =
     total_storage_region (out_filtered_s3 (app raw_e raw_s sel)) \<and>
   out_underutilized_ec2 (app raw_e raw_s sel) =
     underutilized_ec2 (out_filtered_ec2 (app raw_e raw_s sel)) \<and>
   out_expensive_s3 (app raw_e raw_s sel) =
     expensive_s3 (out_filtered_s3 (app raw_e raw_s sel)) \<and>
   out_headline_ec2 (app raw_e raw_s sel) = headline_ec2 (out_filtered_ec2 (app raw_e raw_s sel)) \<and>
   out_headline_s3 (app raw_e raw_s sel) = headline_s3 (out_filtered_s3 (app raw_e raw_s sel))"
  by (simp add: downstream_def app_def Let_def)

theorem clean_views_unused_witness:
  "remove_outliers
     (clean_ec2
        (map (\<lambda>c. \<lparr>ResourceId = ''i'', InstanceType = ''t3.micro'', Region = ''us-east'',
                    State = ''running'', CPUUtilization = Some 10, MemoryUtilization = Some 30,
                    CostUSD = Some c, CreationDate = ''2025-01-01''\<rparr>) [0, 0, 0, 1, 10]))
     ec2.CostUSD =
     map (\<lambda>c. \<lparr>ResourceId = ''i'', InstanceType = ''t3.micro'', Region = ''us-east'',
                 State = ''running'', CPUUtilization = Some 10, MemoryUtilization = Some 30,
                 CostUSD = Some c, CreationDate = ''2025-01-01''\<rparr>) [0, 0, 0, 1] \<and>
   out_filtered_ec2
     (app (map (\<lambda>c. \<lparr>ResourceId = ''i'', InstanceType = ''t3.micro'', Region = ''us-east'',
                      State = ''running'', CPUUtilization = Some 10, MemoryUtilization = Some 30,
                      CostUSD = Some c, CreationDate = ''2025-01-01''\<rparr>) [0, 0, 0, 1, 10])
          []
          \<lparr>ec2_regions = [''us-east''], ec2_states = [''running''], ec2_types = [],
           s3_regions = [], s3_classes = []\<rparr>) =
     map (\<lambda>c. \<lparr>ResourceId = ''i'', InstanceType = ''t3.micro'', Region = ''us-east'',
                 State = ''running'', CPUUtilization = Some 10, MemoryUtilization = Some 30,
                 CostUSD = Some c, CreationDate = ''2025-01-01''\<rparr>) [0, 0, 0, 1, 10]"
proof -
  let ?raw = "map (\<lambda>c. \<lparr>ResourceId = ''i'', InstanceType = ''t3.micro'', Region = ''us-east'',
                    State = ''running'', CPUUtilization = Some 10, MemoryUtilization = Some 30,
                    CostUSD = Some c, CreationDate = ''2025-01-01''\<rparr>) [0, 0, 0, 1, 10]"
  have c: "clean_ec2 ?raw = ?raw"
    by (simp add: clean_ec2_map)
  have r: "remove_outliers ?raw ec2.CostUSD =
     map (\<lambda>c. \<lparr>ResourceId = ''i'', InstanceType = ''t3.micro'', Region = ''us-east'',
                 State = ''running'', CPUUtilization = Some 10, MemoryUtilization = Some 30,
                 CostUSD = Some c, CreationDate = ''2025-01-01''\<rparr>) [0, 0, 0, 1]"
    by (simp add: remove_outliers_def quantile_def nan_bin_def nan_cmp_def getitem_mask_def Let_def)
  have f: "filtered_ec2 ?raw [''us-east''] [''running''] [] = ?raw"
    by (simp add: filtered_ec2_filter)
  from clean_views_unused [where raw_e = ?raw and raw_s = "[]" and sel =
      "\<lparr>ec2_regions = [''us-east''], ec2_states = [''running''], ec2_types = [],
        s3_regions = [], s3_classes = []\<rparr>"]
  have "out_filtered_ec2 (app ?raw []
          \<lparr>ec2_regions = [''us-east''], ec2_states = [''running''], ec2_types = [],
           s3_regions = [], s3_classes = []\<rparr>) =
        filtered_ec2 (clean_ec2 ?raw) [''us-east''] [''running''] []"
    by simp
  with c r f show ?thesis
    by simp
qed

end
